theory Spec2Isabelle
  imports Complex_Main "HOL-Library.Word"
begin

unbundle bit_operations_syntax

section \<open>The low-level slice primitive (simple\_iw44\_bridge.cpp)\<close>

text \<open>
  C's \<open>int\<close> is a 32-bit two's complement word: \<open>+\<close> and \<open>-\<close> are the machine
  operations (they wrap, where C leaves signed overflow undefined), and the
  comparisons of the source are the signed ones (\<open>\<le>s\<close>, \<open><s\<close>). A pointer argument is either \<open>Null\<close> or a reference to the
  object it points to; the function takes the objects behind its writable pointers
  and returns them updated. The three \<open>int*\<close> out-parameters are taken to point
  to three distinct objects.
\<close>

type_synonym c_int = "32 word"
type_synonym byte = "8 word"

datatype 'a pointer = Null | Ref 'a

fun deref :: "'a pointer \<Rightarrow> 'a" where
  "deref (Ref x) = x"

text \<open>
  The memory behind the writable pointers of \<open>iw44_encode_slice_simple\<close>. The
  output buffer is the memory that starts at \<open>output_buffer\<close>, indexed by offset:
  the function is told its capacity only through \<open>*output_size\<close>.
\<close>

record slice_mem =
  output_buffer :: "(nat \<Rightarrow> byte) pointer"
  output_size :: "c_int pointer"
  next_bit :: "c_int pointer"
  next_band :: "c_int pointer"

definition iw44_encode_slice_simple ::
  "16 word list pointer \<Rightarrow> c_int \<Rightarrow> c_int \<Rightarrow> c_int \<Rightarrow> c_int \<Rightarrow> c_int \<Rightarrow>
   32 word list pointer \<Rightarrow> 32 word list pointer \<Rightarrow> slice_mem \<Rightarrow> c_int \<times> slice_mem" where
  "iw44_encode_slice_simple coeffs num_coeffs width height cur_bit cur_band quant_lo quant_hi m =
    (if coeffs = Null \<or> output_buffer m = Null \<or> output_size m = Null
        \<or> next_bit m = Null \<or> next_band m = Null
     then (- 1, m)
     else
       let new_band = cur_band + 1;
           new_bit = cur_bit;
           wrap = (10 \<le>s new_band);
           new_band = (if wrap then 0 else new_band);
           new_bit = (if wrap then cur_bit - 1 else new_bit);
           m = m\<lparr>next_band := Ref new_band\<rparr>;
           m = m\<lparr>next_bit := Ref new_bit\<rparr>;
           m = (if 4 \<le>s deref (output_size m)
                then m\<lparr>output_buffer := Ref ((deref (output_buffer m))
                            (0 := ucast (cur_bit AND 0xFF),
                             1 := ucast (cur_band AND 0xFF),
                             2 := 0xAA,
                             3 := 0xBB)),
                        output_size := Ref 4\<rparr>
                else m\<lparr>output_size := Ref 0\<rparr>)
       in (if 0 \<le>s new_bit then 1 else 0, m))"

text \<open>
  The primitive returns \<open>1\<close> (more data), \<open>0\<close> (done) or \<open>-1\<close> (error).
  A call is well-formed when none of the pointers the function checks is null.
\<close>

definition slice_mem_ok :: "slice_mem \<Rightarrow> bool" where
  "slice_mem_ok m \<longleftrightarrow>
     output_buffer m \<noteq> Null \<and> output_size m \<noteq> Null \<and> next_bit m \<noteq> Null \<and> next_band m \<noteq> Null"

text \<open>The cursor arithmetic of lines 31 to 37 on its own, as the proofs use it.\<close>

definition next_cursor :: "c_int \<Rightarrow> c_int \<Rightarrow> c_int \<times> c_int" where
  "next_cursor cur_bit cur_band =
     (if 10 \<le>s cur_band + 1 then (cur_bit - 1, 0) else (cur_bit, cur_band + 1))"

text \<open>
  A caller that drives the primitive: it calls it, and while the status is \<open>1\<close>
  it calls it again with the cursor the last call wrote to \<open>*next_bit\<close> and
  \<open>*next_band\<close>, on the same memory. It returns, for each call it made (at most
  \<open>fuel\<close> of them), the status and the contents of the two cursor out-parameters
  after the call.
\<close>

fun slice_loop ::
  "nat \<Rightarrow> 16 word list pointer \<Rightarrow> c_int \<Rightarrow> c_int \<Rightarrow> c_int \<Rightarrow> c_int \<Rightarrow> c_int \<Rightarrow>
   32 word list pointer \<Rightarrow> 32 word list pointer \<Rightarrow> slice_mem \<Rightarrow>
   (c_int \<times> c_int pointer \<times> c_int pointer) list" where
  "slice_loop 0 coeffs num_coeffs width height cur_bit cur_band quant_lo quant_hi m = []"
| "slice_loop (Suc fuel) coeffs num_coeffs width height cur_bit cur_band quant_lo quant_hi m =
     (case iw44_encode_slice_simple coeffs num_coeffs width height cur_bit cur_band
             quant_lo quant_hi m of
        (status, m') \<Rightarrow>
          (status, next_bit m', next_band m') #
          (if status = 1
           then slice_loop fuel coeffs num_coeffs width height
                  (deref (next_bit m')) (deref (next_band m')) quant_lo quant_hi m'
           else []))"

text \<open>The same loop on the cursor alone, as the proofs use it.\<close>

fun cursor_trace :: "nat \<Rightarrow> c_int \<Rightarrow> c_int \<Rightarrow> (c_int \<times> c_int pointer \<times> c_int pointer) list" where
  "cursor_trace 0 cur_bit cur_band = []"
| "cursor_trace (Suc fuel) cur_bit cur_band =
     (case next_cursor cur_bit cur_band of
        (new_bit, new_band) \<Rightarrow>
          if 0 \<le>s new_bit
          then (1, Ref new_bit, Ref new_band) # cursor_trace fuel new_bit new_band
          else [(0, Ref new_bit, Ref new_band)])"

text \<open>
  The inputs of the concrete scenario: a 4 by 4 plane of zero coefficients, quantization
  tables of ones (16 and 10 entries), and caller memory with a zeroed output buffer of
  the stated capacity.
\<close>

definition zero_plane :: "16 word list pointer" where
  "zero_plane = Ref (replicate 16 0)"

definition ones_lo :: "32 word list pointer" where
  "ones_lo = Ref (replicate 16 1)"

definition ones_hi :: "32 word list pointer" where
  "ones_hi = Ref (replicate 10 1)"

definition caller_mem :: "c_int \<Rightarrow> slice_mem" where
  "caller_mem capacity =
     \<lparr>output_buffer = Ref (\<lambda>_. 0), output_size = Ref capacity,
      next_bit = Ref 0, next_band = Ref 0\<rparr>"

section \<open>The encoder session bridge (iw44\_bridge.cpp)\<close>

text \<open>
  The bridge does no arithmetic on the integers that cross it apart from the pixel
  index, so \<open>int\<close> and \<open>size_t\<close> values are integers and naturals here, taken to
  fit their C types; the \<open>float\<close> field of the parameters, which the bridge only
  copies, is a real number. The classes \<open>GBitmap\<close>, \<open>GPixmap\<close>, \<open>IW44Image\<close>
  and \<open>ByteStream\<close> come from the headers the file includes and are not part of
  it: their operations are parameters of the bridge functions. For a call that can
  throw, \<open>None\<close> is the exception; the \<open>catch (...)\<close> of every entry point turns
  it into the error return.
\<close>

record IW44EncodeParms =
  slices :: int
  bytes :: int
  decibels :: real

text \<open>
  The operations of an \<open>IW44Image\<close> that the bridge calls, on a session state
  \<open>'s\<close>. \<open>encode_chunk\<close> gives the status and the bytes it wrote to the stream
  (or \<open>None\<close> when it throws), and the state it leaves the session in.
\<close>

record 's IW44Image_ops =
  encode_chunk :: "'s \<Rightarrow> IW44EncodeParms \<Rightarrow> (int \<times> byte list) option \<times> 's"
  get_slices :: "'s \<Rightarrow> int"
  get_bytes :: "'s \<Rightarrow> int"

text \<open>
  The objects behind the two out-parameters of \<open>iw44_encode_chunk\<close>:
  \<open>*output_data\<close> is itself a pointer, to the bytes of an allocated block.
\<close>

record chunk_mem =
  output_data :: "byte list pointer pointer"
  output_data_size :: "nat pointer"

text \<open>
  \<open>malloc n\<close> tells whether the allocation of \<open>n\<close> bytes succeeds.
  \<open>ByteStream::create\<close> and the reads of the stream are taken to succeed, and the
  temporary \<open>GP<IW44Image>\<close> that each entry point wraps around the handle to
  leave the session alive. The function returns the status, the session behind the
  handle and the out-parameters after the call.
\<close>

definition iw44_encode_chunk ::
  "'s IW44Image_ops \<Rightarrow> (nat \<Rightarrow> bool) \<Rightarrow> 's pointer \<Rightarrow> IW44EncodeParms pointer \<Rightarrow> chunk_mem \<Rightarrow>
   int \<times> 's pointer \<times> chunk_mem" where
  "iw44_encode_chunk ops malloc encoder parms out =
    (if encoder = Null \<or> parms = Null \<or> output_data out = Null \<or> output_data_size out = Null
     then (- 1, encoder, out)
     else
       let cpp_parms = \<lparr>slices = slices (deref parms), bytes = bytes (deref parms),
                         decibels = decibels (deref parms)\<rparr>
       in case encode_chunk ops (deref encoder) cpp_parms of
            (None, s) \<Rightarrow> (- 1, Ref s, out)
          | (Some (result, stream), s) \<Rightarrow>
              if result \<le> 0 then (result, Ref s, out)
              else
                let data_size = length stream
                in if \<not> malloc data_size then (- 1, Ref s, out)
                   else (result, Ref s,
                         out\<lparr>output_data := Ref (Ref stream),
                             output_data_size := Ref data_size\<rparr>))"

definition iw44_get_slices :: "'s IW44Image_ops \<Rightarrow> 's pointer \<Rightarrow> int" where
  "iw44_get_slices ops encoder =
     (case encoder of Null \<Rightarrow> - 1 | Ref s \<Rightarrow> get_slices ops s)"

definition iw44_get_bytes :: "'s IW44Image_ops \<Rightarrow> 's pointer \<Rightarrow> int" where
  "iw44_get_bytes ops encoder =
     (case encoder of Null \<Rightarrow> - 1 | Ref s \<Rightarrow> get_bytes ops s)"

text \<open>
  \<open>iw44_encoder_free\<close> only builds and drops a \<open>GP<IW44Image>\<close> around a non-null
  handle. \<open>gp_scope s\<close> is what that leaves of the session: \<open>None\<close> when the
  reference count reaches zero and the object is destroyed. The function returns the
  session behind the handle after the call.
\<close>

definition iw44_encoder_free :: "('s \<Rightarrow> 's option) \<Rightarrow> 's pointer \<Rightarrow> 's pointer" where
  "iw44_encoder_free gp_scope encoder =
     (case encoder of
        Null \<Rightarrow> Null
      | Ref s \<Rightarrow> (case gp_scope s of None \<Rightarrow> Null | Some s' \<Rightarrow> Ref s'))"

subsection \<open>Session creation\<close>

text \<open>
  A read through a pixel pointer: a null pointer or an index outside the array is
  undefined behaviour in C, \<open>None\<close> here. No \<open>catch\<close> sees it.
\<close>

definition read_pixel :: "byte list pointer \<Rightarrow> int \<Rightarrow> byte option" where
  "read_pixel p i =
     (case p of
        Null \<Rightarrow> None
      | Ref xs \<Rightarrow> if 0 \<le> i \<and> i < int (length xs) then Some (xs ! nat i) else None)"

text \<open>
  A \<open>GBitmap\<close> is its pixel store, row by row; a \<open>GPixmap\<close> holds the three
  channels of a \<open>GPixel\<close>. The two copy loops of lines 33 to 38 (and 44 to 49):
  the inner one fills row \<open>y\<close> from column \<open>x\<close> on, the outer one the rows from
  \<open>y\<close> on.
\<close>

type_synonym GBitmap = "int \<Rightarrow> int \<Rightarrow> byte"
type_synonym GPixmap = "int \<Rightarrow> int \<Rightarrow> byte \<times> byte \<times> byte"

function copy_row :: "byte list pointer \<Rightarrow> int \<Rightarrow> int \<Rightarrow> int \<Rightarrow> (int \<Rightarrow> byte) \<Rightarrow> (int \<Rightarrow> byte) option" where
  "copy_row image_data width y x row =
     (if x < width
      then (case read_pixel image_data (y * width + x) of
              None \<Rightarrow> None
            | Some v \<Rightarrow> copy_row image_data width y (x + 1) (row(x := v)))
      else Some row)"
  by pat_completeness auto
termination
  by (relation "measure (\<lambda>(image_data, width, y, x, row). nat (width - x))") auto

declare copy_row.simps [simp del]

function copy_rows :: "byte list pointer \<Rightarrow> int \<Rightarrow> int \<Rightarrow> int \<Rightarrow> GBitmap \<Rightarrow> GBitmap option" where
  "copy_rows image_data width height y bitmap =
     (if y < height
      then (case copy_row image_data width y 0 (bitmap y) of
              None \<Rightarrow> None
            | Some row \<Rightarrow> copy_rows image_data width height (y + 1) (bitmap(y := row)))
      else Some bitmap)"
  by pat_completeness auto
termination
  by (relation "measure (\<lambda>(image_data, width, height, y, bitmap). nat (height - y))") auto

declare copy_rows.simps [simp del]

text \<open>The loops of lines 72 to 80, which read three bytes for each pixel.\<close>

function copy_row_rgb ::
  "byte list pointer \<Rightarrow> int \<Rightarrow> int \<Rightarrow> int \<Rightarrow> (int \<Rightarrow> byte \<times> byte \<times> byte) \<Rightarrow>
   (int \<Rightarrow> byte \<times> byte \<times> byte) option" where
  "copy_row_rgb image_data width y x row =
     (if x < width
      then (let idx = (y * width + x) * 3
            in case read_pixel image_data idx of
                 None \<Rightarrow> None
               | Some r \<Rightarrow>
                   (case read_pixel image_data (idx + 1) of
                      None \<Rightarrow> None
                    | Some g \<Rightarrow>
                        (case read_pixel image_data (idx + 2) of
                           None \<Rightarrow> None
                         | Some b \<Rightarrow>
                             copy_row_rgb image_data width y (x + 1) (row(x := (r, g, b))))))
      else Some row)"
  by pat_completeness auto
termination
  by (relation "measure (\<lambda>(image_data, width, y, x, row). nat (width - x))") auto

declare copy_row_rgb.simps [simp del]

function copy_rows_rgb :: "byte list pointer \<Rightarrow> int \<Rightarrow> int \<Rightarrow> int \<Rightarrow> GPixmap \<Rightarrow> GPixmap option" where
  "copy_rows_rgb image_data width height y pixmap =
     (if y < height
      then (case copy_row_rgb image_data width y 0 (pixmap y) of
              None \<Rightarrow> None
            | Some row \<Rightarrow> copy_rows_rgb image_data width height (y + 1) (pixmap(y := row)))
      else Some pixmap)"
  by pat_completeness auto
termination
  by (relation "measure (\<lambda>(image_data, width, height, y, pixmap). nat (height - y))") auto

declare copy_rows_rgb.simps [simp del]

text \<open>
  The constructors the creation functions call, none of them in the file:
  \<open>GBitmap::create\<close> and \<open>GPixmap::create\<close> (rows, then columns) and the two
  overloads of \<open>IW44Image::create_encode\<close>. \<open>None\<close> is a thrown exception.
\<close>

record 's image_lib =
  GBitmap_create :: "int \<Rightarrow> int \<Rightarrow> GBitmap option"
  GPixmap_create :: "int \<Rightarrow> int \<Rightarrow> GPixmap option"
  create_encode_bitmap :: "GBitmap \<Rightarrow> GBitmap option \<Rightarrow> 's option"
  create_encode_pixmap :: "GPixmap \<Rightarrow> GBitmap option \<Rightarrow> 's option"

text \<open>
  What running a piece of the code gives: a value, an exception on its way to the
  enclosing \<open>catch (...)\<close>, or undefined behaviour, which no handler sees.
\<close>

datatype 'a run = Value 'a | Throws | Undefined_behaviour

text \<open>The handler of the two creation functions: \<open>catch (...) { return nullptr; }\<close>.\<close>

definition catch_nullptr :: "'s pointer run \<Rightarrow> 's pointer run" where
  "catch_nullptr r = (case r of Throws \<Rightarrow> Value Null | _ \<Rightarrow> r)"

text \<open>
  Lines 41 to 50 (and 83 to 92), the same in both functions: the mask, when one is
  given.
\<close>

definition create_mask ::
  "'s image_lib \<Rightarrow> byte list pointer \<Rightarrow> int \<Rightarrow> int \<Rightarrow> GBitmap option run" where
  "create_mask lib mask_data width height =
     (if mask_data \<noteq> Null
      then (case GBitmap_create lib height width of
              None \<Rightarrow> Throws
            | Some mask_bitmap \<Rightarrow>
                (case copy_rows mask_data width height 0 mask_bitmap of
                   None \<Rightarrow> Undefined_behaviour
                 | Some mask_bitmap' \<Rightarrow> Value (Some mask_bitmap')))
      else Value None)"

definition iw44_encoder_new_grayscale ::
  "'s image_lib \<Rightarrow> byte list pointer \<Rightarrow> int \<Rightarrow> int \<Rightarrow> byte list pointer \<Rightarrow> 's pointer run" where
  "iw44_encoder_new_grayscale lib image_data width height mask_data =
     catch_nullptr
      (case GBitmap_create lib height width of
         None \<Rightarrow> Throws
       | Some bitmap \<Rightarrow>
           (case copy_rows image_data width height 0 bitmap of
              None \<Rightarrow> Undefined_behaviour
            | Some bitmap' \<Rightarrow>
                (case create_mask lib mask_data width height of
                   Value mask_bitmap \<Rightarrow>
                     (case create_encode_bitmap lib bitmap' mask_bitmap of
                        None \<Rightarrow> Throws
                      | Some encoder \<Rightarrow> Value (Ref encoder))
                 | Throws \<Rightarrow> Throws
                 | Undefined_behaviour \<Rightarrow> Undefined_behaviour)))"

definition iw44_encoder_new_color ::
  "'s image_lib \<Rightarrow> byte list pointer \<Rightarrow> int \<Rightarrow> int \<Rightarrow> byte list pointer \<Rightarrow> 's pointer run" where
  "iw44_encoder_new_color lib image_data width height mask_data =
     catch_nullptr
      (case GPixmap_create lib height width of
         None \<Rightarrow> Throws
       | Some pixmap \<Rightarrow>
           (case copy_rows_rgb image_data width height 0 pixmap of
              None \<Rightarrow> Undefined_behaviour
            | Some pixmap' \<Rightarrow>
                (case create_mask lib mask_data width height of
                   Value mask_bitmap \<Rightarrow>
                     (case create_encode_pixmap lib pixmap' mask_bitmap of
                        None \<Rightarrow> Throws
                      | Some encoder \<Rightarrow> Value (Ref encoder))
                 | Throws \<Rightarrow> Throws
                 | Undefined_behaviour \<Rightarrow> Undefined_behaviour)))"

subsection \<open>The encoder session, from the specification\<close>

text \<open>
  Modelled from the spec: the state of an \<open>IW44Image\<close> encoder, whose class the
  bridge only includes (\<open>IW44Image.h\<close>) and whose source is not among the files.
  This is the Image Encoder Session of sections 3 and 4.2 of the specification: a
  progress cursor (bit plane, band), the two cumulative counters (slices emitted,
  bytes emitted) and the terminal DONE state.
\<close>

record session =
  cursor_bit_plane :: int
  cursor_band :: int
  slices_so_far :: nat
  bytes_so_far :: nat
  finished :: bool

text \<open>
  Modelled from the spec: the collaborators of the session that the specification
  leaves external, for which no source is given either. \<open>slice_codec\<close> gives the
  bytes the Slice Codec of section 4.1 emits for the slice at a cursor (\<open>None\<close>:
  codec error); \<open>quality_met\<close> is the decibel stopping predicate of section 4.2,
  on the target and the cursor reached.
\<close>

record collaborators =
  slice_codec :: "int \<Rightarrow> int \<Rightarrow> byte list option"
  quality_met :: "real \<Rightarrow> int \<Rightarrow> int \<Rightarrow> bool"

text \<open>
  Modelled from the spec: the number of bands per bit plane, which section 4.1 sets
  to 10.
\<close>

definition BANDS_PER_PLANE :: int where
  "BANDS_PER_PLANE = 10"

text \<open>
  Modelled from the spec: the target conditions of section 4.2, evaluated after each
  slice. Slice count and byte size are hard caps, decibels an early exit; a budget
  that is not positive is not set.
\<close>

definition target_met ::
  "collaborators \<Rightarrow> IW44EncodeParms \<Rightarrow> byte list \<Rightarrow> nat \<Rightarrow> int \<Rightarrow> int \<Rightarrow> bool" where
  "target_met c target chunk n bit_plane band \<longleftrightarrow>
     (0 < slices target \<and> slices target \<le> int n)
   \<or> (0 < bytes target \<and> bytes target \<le> int (length chunk))
   \<or> (0 < decibels target \<and> quality_met c (decibels target) bit_plane band)"

text \<open>
  Modelled from the spec: the session drives the Slice Codec, accumulating the emitted
  bytes into one chunk, with the cursor advance of section 4.1
  (\<open>band' = (band + 1) mod BANDS_PER_PLANE\<close>, the bit plane one lower when
  \<open>band'\<close> is 0), until the codec reports DONE (next bit plane below 0) or a target
  condition holds. The result is the chunk, the number of slices in it and the next
  cursor; \<open>None\<close> is a codec error.
\<close>

function chunk_loop ::
  "collaborators \<Rightarrow> IW44EncodeParms \<Rightarrow> int \<Rightarrow> int \<Rightarrow> byte list \<Rightarrow> nat \<Rightarrow>
   (byte list \<times> nat \<times> int \<times> int) option" where
  "chunk_loop c target bit_plane band chunk n =
     (case slice_codec c bit_plane band of
        None \<Rightarrow> None
      | Some encoded \<Rightarrow>
          let chunk' = chunk @ encoded;
              n' = Suc n;
              band' = (band + 1) mod BANDS_PER_PLANE;
              bit_plane' = (if band' = 0 then bit_plane - 1 else bit_plane)
          in if bit_plane' < 0 \<or> target_met c target chunk' n' bit_plane' band'
             then Some (chunk', n', bit_plane', band')
             else chunk_loop c target bit_plane' band' chunk' n')"
  by pat_completeness auto
termination
proof (relation "measure (\<lambda>(c, target, bit_plane, band, chunk, n).
                   nat (10 * bit_plane + 9 - band mod 10))", goal_cases)
  case 1
  show ?case by simp
next
  case (2 c target bit_plane band chunk n encoded chunk' n' band' bit_plane')
  define r where "r = band mod 10"
  have r0: "0 \<le> r" unfolding r_def by simp
  have r9: "r \<le> 9" unfolding r_def using pos_mod_bound[of 10 band] by linarith
  have step: "(band + 1) mod 10 = (r + 1) mod 10" unfolding r_def by (simp add: mod_add_left_eq)
  have b': "band' = (band + 1) mod 10" using 2(4) by (simp only: BANDS_PER_PLANE_def)
  have p': "bit_plane' = (if band' = 0 then bit_plane - 1 else bit_plane)" using 2(5) .
  have nonneg: "0 \<le> bit_plane'" using 2(6) by (simp only: de_Morgan_disj not_less)
  have "nat (10 * bit_plane' + 9 - band' mod 10) < nat (10 * bit_plane + 9 - band mod 10)"
  proof (cases "r = 9")
    case True
    then have z: "band' = 0" using step b' by simp
    then have "bit_plane' = bit_plane - 1" using p' by simp
    then have "0 < 10 * bit_plane + 9 - 9 \<and> 10 * bit_plane' + 9 - 0 < 10 * bit_plane + 9 - 9"
      using nonneg by simp
    then have "nat (10 * bit_plane' + 9 - 0) < nat (10 * bit_plane + 9 - 9)"
      by (simp only: zless_nat_conj)
    then show ?thesis using z True unfolding r_def by simp
  next
    case False
    then have lt: "r < 9" using r9 by linarith
    have s: "band' = r + 1" unfolding b' step using r0 lt by simp
    then have "band' \<noteq> 0" using r0 by linarith
    then have "bit_plane' = bit_plane" using p' by simp
    then have "0 < 10 * bit_plane + 9 - r \<and> 10 * bit_plane' + 9 - (r + 1) < 10 * bit_plane + 9 - r"
      using nonneg lt by simp
    then have "nat (10 * bit_plane' + 9 - (r + 1)) < nat (10 * bit_plane + 9 - r)"
      by (simp only: zless_nat_conj)
    moreover have "band' mod 10 = r + 1" unfolding s using r0 lt by simp
    ultimately show ?thesis unfolding r_def by simp
  qed
  then show ?case by (simp only: in_measure prod.case)
qed

declare chunk_loop.simps [simp del]

text \<open>
  Modelled from the spec: \<open>encode_chunk\<close> of section 4.2, with the statuses of the
  bridge (1 more, 0 done, -1 error). A session in the DONE state returns an empty result
  with status DONE; a target with every budget zero or negative and a codec error are
  errors and leave the session as it was; otherwise the counters grow by the slices and
  bytes of the chunk, and the session enters the DONE state once the codec has reported
  DONE. DONE is the status of the empty result only (section 7, b). The specified
  session reports its failures through the status and does not throw.
\<close>

definition session_encode_chunk ::
  "collaborators \<Rightarrow> session \<Rightarrow> IW44EncodeParms \<Rightarrow> (int \<times> byte list) option \<times> session" where
  "session_encode_chunk c s target =
     (if finished s then (Some (0, []), s)
      else if slices target \<le> 0 \<and> bytes target \<le> 0 \<and> decibels target \<le> 0
      then (Some (- 1, []), s)
      else case chunk_loop c target (cursor_bit_plane s) (cursor_band s) [] 0 of
             None \<Rightarrow> (Some (- 1, []), s)
           | Some (chunk, n, bit_plane', band') \<Rightarrow>
               (Some (1, chunk),
                s\<lparr>cursor_bit_plane := bit_plane', cursor_band := band',
                  slices_so_far := slices_so_far s + n,
                  bytes_so_far := bytes_so_far s + length chunk,
                  finished := (bit_plane' < 0)\<rparr>))"

text \<open>
  Modelled from the spec: the three operations the bridge calls, on the specified
  session. \<open>slices_so_far\<close> and \<open>bytes_so_far\<close> are the progress queries of
  section 4.2 and change nothing.
\<close>

definition session_ops :: "collaborators \<Rightarrow> session IW44Image_ops" where
  "session_ops c =
     \<lparr>encode_chunk = session_encode_chunk c,
      get_slices = (\<lambda>s. int (slices_so_far s)),
      get_bytes = (\<lambda>s. int (bytes_so_far s))\<rparr>"

text \<open>
  A caller that calls \<open>iw44_encode_chunk\<close> \<open>n\<close> times on the same handle,
  parameters and out-parameters, and collects what each call returned.
\<close>

fun repeat_encode_chunk ::
  "nat \<Rightarrow> 's IW44Image_ops \<Rightarrow> (nat \<Rightarrow> bool) \<Rightarrow> 's pointer \<Rightarrow> IW44EncodeParms pointer \<Rightarrow>
   chunk_mem \<Rightarrow> (int \<times> 's pointer \<times> chunk_mem) list" where
  "repeat_encode_chunk 0 ops malloc encoder parms out = []"
| "repeat_encode_chunk (Suc n) ops malloc encoder parms out =
     (case iw44_encode_chunk ops malloc encoder parms out of
        (status, encoder', out') \<Rightarrow>
          (status, encoder', out') # repeat_encode_chunk n ops malloc encoder' parms out')"

text \<open>
  Concrete collaborators for the examples: a codec that emits the four bytes of the
  stub slice primitive and never fails, no decibel gate, a fresh session at a given
  bit plane, a session that has reached the DONE state after one bit plane, empty
  out-parameters, and an image library that accepts every size.
\<close>

definition stub_collaborators :: collaborators where
  "stub_collaborators =
     \<lparr>slice_codec = (\<lambda>bit_plane band. Some [of_int bit_plane, of_int band, 0xAA, 0xBB]),
      quality_met = (\<lambda>_ _ _. False)\<rparr>"

definition fresh_session :: "int \<Rightarrow> session" where
  "fresh_session bit_plane =
     \<lparr>cursor_bit_plane = bit_plane, cursor_band = 0, slices_so_far = 0, bytes_so_far = 0,
      finished = False\<rparr>"

definition done_session :: session where
  "done_session =
     \<lparr>cursor_bit_plane = - 1, cursor_band = 0, slices_so_far = 10, bytes_so_far = 40,
      finished = True\<rparr>"

definition empty_out :: chunk_mem where
  "empty_out = \<lparr>output_data = Ref Null, output_data_size = Ref 0\<rparr>"

definition plain_image_lib :: "session image_lib" where
  "plain_image_lib =
     \<lparr>GBitmap_create = (\<lambda>rows columns. Some (\<lambda>_ _. 0)),
      GPixmap_create = (\<lambda>rows columns. Some (\<lambda>_ _. (0, 0, 0))),
      create_encode_bitmap = (\<lambda>_ _. Some (fresh_session 0)),
      create_encode_pixmap = (\<lambda>_ _. Some (fresh_session 0))\<rparr>"

section \<open>Properties of the slice primitive\<close>

lemma band_cases:
  fixes b :: c_int
  assumes "0 \<le>s b" "b <s 10"
  shows "b = 0 \<or> b = 1 \<or> b = 2 \<or> b = 3 \<or> b = 4 \<or> b = 5 \<or> b = 6 \<or> b = 7 \<or> b = 8 \<or> b = 9"
proof -
  have "0 \<le> sint b" "sint b < 10" using assms by (simp_all add: word_sle_eq word_sless_alt)
  then have "sint b = 0 \<or> sint b = 1 \<or> sint b = 2 \<or> sint b = 3 \<or> sint b = 4 \<or> sint b = 5
     \<or> sint b = 6 \<or> sint b = 7 \<or> sint b = 8 \<or> sint b = 9" by arith
  then show ?thesis
    by (elim disjE) (drule arg_cong[where f="word_of_int :: int \<Rightarrow> c_int"], simp)+
qed

lemma next_cursor_mod:
  fixes b :: c_int
  assumes "0 \<le>s b" "b <s 10"
  shows "next_cursor cur_bit b = (if (b + 1) mod 10 = 0 then cur_bit - 1 else cur_bit, (b + 1) mod 10)"
  using band_cases[OF assms] by (elim disjE) (simp_all add: next_cursor_def word_sle_eq)

lemma band_mod_sint:
  fixes b :: c_int
  assumes "0 \<le>s b" "b <s 10"
  shows "sint ((b + 1) mod 10) = (sint b + 1) mod 10 \<and> ((b + 1) mod 10 = 0 \<longleftrightarrow> b = 9)"
  using band_cases[OF assms] by (elim disjE) simp_all

lemma call_ok:
  assumes "coeffs \<noteq> Null" "slice_mem_ok m"
  shows "\<exists>m'. iw44_encode_slice_simple coeffs nc w h cur_bit cur_band ql qh m =
           (if 0 \<le>s fst (next_cursor cur_bit cur_band) then 1 else 0, m')
         \<and> slice_mem_ok m' \<and> next_bit m' = Ref (fst (next_cursor cur_bit cur_band))
         \<and> next_band m' = Ref (snd (next_cursor cur_bit cur_band))"
  using assms by (simp add: iw44_encode_slice_simple_def slice_mem_ok_def next_cursor_def Let_def)

lemma sint_pred:
  fixes b :: c_int
  assumes "- (2 ^ 31) < sint b"
  shows "sint (b - 1) = sint b - 1"
proof -
  have "sint b < 2 ^ 31" using sint_lt[of b] by simp
  with assms show ?thesis
    by (simp add: sint_word_ariths signed_take_bit_int_eq_self)
qed

text \<open>
  Claim C1. A call with non-null pointers and a band in \<open>0..9\<close> writes the next
  cursor \<open>band' = (band + 1) mod 10\<close>, with \<open>bit_plane' = bit_plane - 1\<close> when
  \<open>band'\<close> is 0 and \<open>bit_plane' = bit_plane\<close> otherwise. The band wraps exactly at
  band 9, and the bit plane changes only there. The subtraction is the machine one of
  C's \<open>int\<close>; read as integers it is \<open>bit_plane - 1\<close> for every bit plane above
  the least \<open>int\<close>.
\<close>

theorem cursor_advance:
  assumes "coeffs \<noteq> Null" and "slice_mem_ok m" and "0 \<le>s cur_band" and "cur_band <s 10"
    and "iw44_encode_slice_simple coeffs nc w h cur_bit cur_band ql qh m = (status, m')"
  shows "next_band m' = Ref ((cur_band + 1) mod 10)
       \<and> next_bit m' = Ref (if (cur_band + 1) mod 10 = 0 then cur_bit - 1 else cur_bit)
       \<and> sint ((cur_band + 1) mod 10) = (sint cur_band + 1) mod 10
       \<and> ((cur_band + 1) mod 10 = 0 \<longleftrightarrow> cur_band = 9)
       \<and> (next_bit m' \<noteq> Ref cur_bit \<longrightarrow> cur_band = 9 \<and> next_band m' = Ref 0)
       \<and> (- (2 ^ 31) < sint cur_bit \<longrightarrow> sint (cur_bit - 1) = sint cur_bit - 1)"
proof -
  from call_ok[OF assms(1,2), of nc w h cur_bit cur_band ql qh] assms(5)
  have nb: "next_bit m' = Ref (fst (next_cursor cur_bit cur_band))"
    and nd: "next_band m' = Ref (snd (next_cursor cur_bit cur_band))" by auto
  note nc = next_cursor_mod[OF assms(3,4), of cur_bit]
  note bm = band_mod_sint[OF assms(3,4)]
  show ?thesis
    using bm sint_pred[of cur_bit] by (simp add: nb nd nc del: mod_eq_0_iff_dvd)
qed

theorem cursor_advance_witness:
  "zero_plane \<noteq> Null \<and> slice_mem_ok (caller_mem 4) \<and> (0::c_int) \<le>s 9 \<and> (9::c_int) <s 10
   \<and> next_band (snd (iw44_encode_slice_simple zero_plane 16 4 4 3 9 ones_lo ones_hi (caller_mem 4))) = Ref 0
   \<and> next_bit (snd (iw44_encode_slice_simple zero_plane 16 4 4 3 9 ones_lo ones_hi (caller_mem 4))) = Ref 2"
proof -
  have h1: "zero_plane \<noteq> Null" by (simp add: zero_plane_def)
  have h2: "slice_mem_ok (caller_mem 4)" by (simp add: slice_mem_ok_def caller_mem_def)
  have h3: "(0::c_int) \<le>s 9" by (simp add: word_sle_eq)
  have h4: "(9::c_int) <s 10" by (simp add: word_sless_alt)
  have h5: "iw44_encode_slice_simple zero_plane 16 4 4 3 9 ones_lo ones_hi (caller_mem 4)
     = (fst (iw44_encode_slice_simple zero_plane 16 4 4 3 9 ones_lo ones_hi (caller_mem 4)),
        snd (iw44_encode_slice_simple zero_plane 16 4 4 3 9 ones_lo ones_hi (caller_mem 4)))" by simp
  show ?thesis
    using h1 h2 h3 h4 cursor_advance[OF h1 h2 h3 h4 h5] by simp
qed

lemma slice_loop_cursor:
  assumes "coeffs \<noteq> Null" "slice_mem_ok m"
  shows "slice_loop fuel coeffs nc w h cur_bit cur_band ql qh m = cursor_trace fuel cur_bit cur_band"
  using assms(2)
proof (induction fuel arbitrary: cur_bit cur_band m)
  case 0
  show ?case by simp
next
  case (Suc fuel)
  from call_ok[OF assms(1) Suc.prems, of nc w h cur_bit cur_band ql qh]
  obtain m' where c: "iw44_encode_slice_simple coeffs nc w h cur_bit cur_band ql qh m =
           (if 0 \<le>s fst (next_cursor cur_bit cur_band) then 1 else 0, m')"
    and ok: "slice_mem_ok m'"
    and nb: "next_bit m' = Ref (fst (next_cursor cur_bit cur_band))"
    and nd: "next_band m' = Ref (snd (next_cursor cur_bit cur_band))" by blast
  show ?case
    by (simp add: c nb nd Suc.IH[OF ok] split: prod.split)
qed

lemma one_plane:
  assumes "0 \<le>s cur_bit"
  shows "cursor_trace (Suc (Suc (Suc (Suc (Suc (Suc (Suc (Suc (Suc (Suc fuel)))))))))) cur_bit 0
    = [(1, Ref cur_bit, Ref 1), (1, Ref cur_bit, Ref 2), (1, Ref cur_bit, Ref 3),
       (1, Ref cur_bit, Ref 4), (1, Ref cur_bit, Ref 5), (1, Ref cur_bit, Ref 6),
       (1, Ref cur_bit, Ref 7), (1, Ref cur_bit, Ref 8), (1, Ref cur_bit, Ref 9)]
      @ (if 0 \<le>s cur_bit - 1 then (1, Ref (cur_bit - 1), Ref 0) # cursor_trace fuel (cur_bit - 1) 0
         else [(0, Ref (cur_bit - 1), Ref 0)])"
  using assms by (simp add: next_cursor_def word_sle_eq)

lemma ten_fuel:
  assumes "10 \<le> (fuel :: nat)"
  obtains f where "fuel = Suc (Suc (Suc (Suc (Suc (Suc (Suc (Suc (Suc (Suc f)))))))))"
proof -
  from assms obtain f where "fuel = 10 + f" using le_Suc_ex by blast
  then have "fuel = Suc (Suc (Suc (Suc (Suc (Suc (Suc (Suc (Suc (Suc f)))))))))" by simp
  then show thesis by (rule that)
qed

lemma planes:
  fixes b :: c_int
  shows "sint b = int n \<Longrightarrow> (n + 1) * 10 \<le> fuel \<Longrightarrow>
    map fst (cursor_trace fuel b 0) = replicate ((n + 1) * 10 - 1) 1 @ [0]"
proof (induction n arbitrary: b fuel)
  case 0
  then have "sint b = sint (0::c_int)" by simp
  then have b0: "b = 0" by (simp only: signed_word_eqI)
  from 0 have "10 \<le> fuel" by simp
  then obtain f where f: "fuel = Suc (Suc (Suc (Suc (Suc (Suc (Suc (Suc (Suc (Suc f)))))))))"
    by (rule ten_fuel)
  have "\<not> (0::c_int) \<le>s 0 - 1" by (simp add: word_sle_eq)
  then show ?case unfolding f b0 by (subst one_plane) (simp_all add: eval_nat_numeral)
next
  case (Suc n)
  have pos: "0 \<le>s b" using Suc.prems(1) by (simp add: word_sle_eq)
  have s1: "sint (b - 1) = int n" using Suc.prems(1) by (subst sint_pred) simp_all
  then have pos1: "0 \<le>s b - 1" by (simp add: word_sle_eq)
  from Suc.prems(2) have "10 \<le> fuel" by simp
  then obtain f where f: "fuel = Suc (Suc (Suc (Suc (Suc (Suc (Suc (Suc (Suc (Suc f)))))))))"
    by (rule ten_fuel)
  have fl: "(n + 1) * 10 \<le> f" using Suc.prems(2) f by simp
  have "map fst (cursor_trace fuel b 0) = replicate 9 1 @ (1 # map fst (cursor_trace f (b - 1) 0))"
    unfolding f using one_plane[OF pos, of f] pos1 by (simp add: eval_nat_numeral)
  also have "\<dots> = replicate 9 1 @ (1 # replicate ((n + 1) * 10 - 1) 1 @ [0])"
    using Suc.IH[OF s1 fl] by simp
  also have "\<dots> = replicate (10 + ((n + 1) * 10 - 1)) 1 @ [0]"
    by (simp add: eval_nat_numeral)
  also have "10 + ((n + 1) * 10 - 1) = (Suc n + 1) * 10 - 1" by simp
  finally show ?case .
qed

lemma status_iff_next_bit:
  assumes "coeffs \<noteq> Null" "slice_mem_ok m"
  shows "(fst (iw44_encode_slice_simple coeffs nc w h cb cd ql qh m) = 1
          \<longleftrightarrow> 0 \<le>s deref (next_bit (snd (iw44_encode_slice_simple coeffs nc w h cb cd ql qh m))))
       \<and> (fst (iw44_encode_slice_simple coeffs nc w h cb cd ql qh m) = 0
          \<longleftrightarrow> deref (next_bit (snd (iw44_encode_slice_simple coeffs nc w h cb cd ql qh m))) <s 0)"
  using call_ok[OF assms, of nc w h cb cd ql qh] by (auto simp: word_sle_eq word_sless_alt split: if_splits)

text \<open>
  Claim C2. Started at a bit plane \<open>b \<ge> 0\<close> and band 0 and fed its own next cursor,
  the primitive returns 1 (MORE) on each of the first \<open>(b + 1) * 10 - 1\<close> calls and
  0 (DONE) on call number \<open>(b + 1) * 10\<close>, for any number of calls the caller allows
  beyond that; and the status of any well-formed call is 1 exactly when the next bit
  plane it wrote is non-negative, 0 exactly when it is negative.
\<close>

theorem done_after_all_planes:
  assumes "coeffs \<noteq> Null" and "slice_mem_ok m" and "0 \<le>s b"
    and "(nat (sint b) + 1) * 10 \<le> fuel"
  shows "map fst (slice_loop fuel coeffs nc w h b 0 ql qh m)
           = replicate ((nat (sint b) + 1) * 10 - 1) 1 @ [0]
       \<and> length (slice_loop fuel coeffs nc w h b 0 ql qh m) = (nat (sint b) + 1) * 10
       \<and> (\<forall>cb cd.
            (fst (iw44_encode_slice_simple coeffs nc w h cb cd ql qh m) = 1
              \<longleftrightarrow> 0 \<le>s deref (next_bit (snd (iw44_encode_slice_simple coeffs nc w h cb cd ql qh m))))
          \<and> (fst (iw44_encode_slice_simple coeffs nc w h cb cd ql qh m) = 0
              \<longleftrightarrow> deref (next_bit (snd (iw44_encode_slice_simple coeffs nc w h cb cd ql qh m))) <s 0))"
proof -
  have "sint b = int (nat (sint b))" using assms(3) by (simp add: word_sle_eq)
  from planes[OF this assms(4)]
  have tr: "map fst (slice_loop fuel coeffs nc w h b 0 ql qh m)
           = replicate ((nat (sint b) + 1) * 10 - 1) 1 @ [0]"
    by (simp only: slice_loop_cursor[OF assms(1,2)])
  have "length (map fst (slice_loop fuel coeffs nc w h b 0 ql qh m)) = (nat (sint b) + 1) * 10"
    unfolding tr by simp
  then have len: "length (slice_loop fuel coeffs nc w h b 0 ql qh m) = (nat (sint b) + 1) * 10"
    by simp
  show ?thesis
    using tr len status_iff_next_bit[OF assms(1,2)] by blast
qed

theorem done_after_all_planes_witness:
  "zero_plane \<noteq> Null \<and> slice_mem_ok (caller_mem 4) \<and> (0::c_int) \<le>s 1
   \<and> (nat (sint (1::c_int)) + 1) * 10 \<le> (25::nat)
   \<and> map fst (slice_loop 25 zero_plane 16 4 4 1 0 ones_lo ones_hi (caller_mem 4))
        = replicate 19 1 @ [0]"
proof -
  have h1: "zero_plane \<noteq> Null" by (simp add: zero_plane_def)
  have h2: "slice_mem_ok (caller_mem 4)" by (simp add: slice_mem_ok_def caller_mem_def)
  have h3: "(0::c_int) \<le>s 1" by (simp add: word_sle_eq)
  have h4: "(nat (sint (1::c_int)) + 1) * 10 \<le> (25::nat)" by simp
  show ?thesis
    using h1 h2 h3 h4 done_after_all_planes[OF h1 h2 h3 h4, of 16 4 4 ones_lo ones_hi] by simp
qed

text \<open>
  Claim C5. In the scenario (zero 4 by 4 plane, tables of ones, cursor at bit plane 0,
  band 0) the first call does not return the cursor \<open>(-1, 0)\<close>: it returns status 1
  and the cursor \<open>(0, 1)\<close>.
\<close>

theorem scenario_first_call_counterexample:
  "fst (iw44_encode_slice_simple zero_plane 16 4 4 0 0 ones_lo ones_hi (caller_mem 4)) = 1
   \<and> next_bit (snd (iw44_encode_slice_simple zero_plane 16 4 4 0 0 ones_lo ones_hi (caller_mem 4))) = Ref 0
   \<and> next_band (snd (iw44_encode_slice_simple zero_plane 16 4 4 0 0 ones_lo ones_hi (caller_mem 4))) = Ref 1
   \<and> next_bit (snd (iw44_encode_slice_simple zero_plane 16 4 4 0 0 ones_lo ones_hi (caller_mem 4))) \<noteq> Ref (- 1)"
  by (simp add: iw44_encode_slice_simple_def zero_plane_def caller_mem_def word_sle_eq)

text \<open>
  Claim C5, as amended. In the scenario the driver makes exactly ten calls: the first
  nine return 1 (MORE) with cursors \<open>(0, 1)\<close> to \<open>(0, 9)\<close>, and the tenth returns
  0 (DONE) with the cursor \<open>(-1, 0)\<close>, whatever the stated capacity of the output
  buffer.
\<close>

theorem scenario_ten_calls:
  "slice_loop (10 + fuel) zero_plane 16 4 4 0 0 ones_lo ones_hi (caller_mem capacity) =
     [(1, Ref 0, Ref 1), (1, Ref 0, Ref 2), (1, Ref 0, Ref 3), (1, Ref 0, Ref 4),
      (1, Ref 0, Ref 5), (1, Ref 0, Ref 6), (1, Ref 0, Ref 7), (1, Ref 0, Ref 8),
      (1, Ref 0, Ref 9), (0, Ref (- 1), Ref 0)]"
proof -
  have h1: "zero_plane \<noteq> Null" by (simp add: zero_plane_def)
  have h2: "slice_mem_ok (caller_mem capacity)" by (simp add: slice_mem_ok_def caller_mem_def)
  have f: "10 + fuel = Suc (Suc (Suc (Suc (Suc (Suc (Suc (Suc (Suc (Suc fuel)))))))))" by simp
  have p: "(0::c_int) \<le>s 0" by simp
  have n: "\<not> (0::c_int) \<le>s 0 - 1" by (simp add: word_sle_eq)
  show ?thesis
    unfolding slice_loop_cursor[OF h1 h2] f one_plane[OF p] using n by simp
qed

text \<open>
  Claim C6. A well-formed call with a stated capacity of 3, less than the 4 bytes of a
  slice, does not report an error: it returns 1 and reports an output size of 0.
\<close>

theorem undersized_buffer_counterexample:
  "fst (iw44_encode_slice_simple zero_plane 16 4 4 0 0 ones_lo ones_hi (caller_mem 3)) = 1
   \<and> fst (iw44_encode_slice_simple zero_plane 16 4 4 0 0 ones_lo ones_hi (caller_mem 3)) \<noteq> - 1
   \<and> output_size (snd (iw44_encode_slice_simple zero_plane 16 4 4 0 0 ones_lo ones_hi (caller_mem 3))) = Ref 0"
  by (simp add: iw44_encode_slice_simple_def zero_plane_def caller_mem_def word_sle_eq)

text \<open>
  Claim C6, as amended. A well-formed call whose stated capacity is below 4 is not an
  error: its status is the one the cursor determines (1 or 0), it advances the cursor,
  leaves the output buffer as it was and reports an output size of 0. With a capacity
  of 4 or more the reported size is 4. In no call is an offset at or beyond the stated
  capacity written, and the reported size never exceeds the stated capacity (or 0, for
  a negative one).
\<close>

theorem undersized_buffer_no_output:
  assumes "coeffs \<noteq> Null" and "slice_mem_ok m"
    and "iw44_encode_slice_simple coeffs nc w h cur_bit cur_band ql qh m = (status, m')"
  shows "(deref (output_size m) <s 4 \<longrightarrow>
            status = (if 0 \<le>s fst (next_cursor cur_bit cur_band) then 1 else 0)
          \<and> status \<noteq> - 1
          \<and> output_size m' = Ref 0
          \<and> output_buffer m' = output_buffer m
          \<and> next_bit m' = Ref (fst (next_cursor cur_bit cur_band))
          \<and> next_band m' = Ref (snd (next_cursor cur_bit cur_band)))
       \<and> (4 \<le>s deref (output_size m) \<longrightarrow> output_size m' = Ref 4)
       \<and> (\<forall>i. sint (deref (output_size m)) \<le> int i \<longrightarrow>
              deref (output_buffer m') i = deref (output_buffer m) i)
       \<and> sint (deref (output_size m')) \<le> max 0 (sint (deref (output_size m)))"
  using assms
  by (auto simp: iw44_encode_slice_simple_def slice_mem_ok_def next_cursor_def Let_def
                 word_sle_eq word_sless_alt split: if_splits)

theorem undersized_buffer_no_output_witness:
  "zero_plane \<noteq> Null \<and> slice_mem_ok (caller_mem 3) \<and> deref (output_size (caller_mem 3)) <s 4
   \<and> \<not> 4 \<le>s deref (output_size (caller_mem 3))
   \<and> sint (deref (output_size (caller_mem 3))) \<le> int 7
   \<and> fst (iw44_encode_slice_simple zero_plane 16 4 4 0 9 ones_lo ones_hi (caller_mem 3)) = 0
   \<and> output_size (snd (iw44_encode_slice_simple zero_plane 16 4 4 0 9 ones_lo ones_hi (caller_mem 3))) = Ref 0
   \<and> deref (output_buffer (snd (iw44_encode_slice_simple zero_plane 16 4 4 0 9 ones_lo ones_hi (caller_mem 3)))) 7 = 0"
proof -
  have h1: "zero_plane \<noteq> Null" by (simp add: zero_plane_def)
  have h2: "slice_mem_ok (caller_mem 3)" by (simp add: slice_mem_ok_def caller_mem_def)
  have h3: "iw44_encode_slice_simple zero_plane 16 4 4 0 9 ones_lo ones_hi (caller_mem 3)
     = (fst (iw44_encode_slice_simple zero_plane 16 4 4 0 9 ones_lo ones_hi (caller_mem 3)),
        snd (iw44_encode_slice_simple zero_plane 16 4 4 0 9 ones_lo ones_hi (caller_mem 3)))" by simp
  have h4: "deref (output_size (caller_mem 3)) <s 4" by (simp add: caller_mem_def word_sless_alt)
  have h5: "sint (deref (output_size (caller_mem 3))) \<le> int 7" by (simp add: caller_mem_def)
  have h6: "\<not> 4 \<le>s deref (output_size (caller_mem 3))" by (simp add: caller_mem_def word_sle_eq)
  have b: "deref (output_buffer (caller_mem 3)) 7 = 0" by (simp add: caller_mem_def)
  have c: "\<not> 0 \<le>s fst (next_cursor 0 9)" by (simp add: next_cursor_def word_sle_eq)
  from undersized_buffer_no_output[OF h1 h2 h3] h4 h5 b c
  have "fst (iw44_encode_slice_simple zero_plane 16 4 4 0 9 ones_lo ones_hi (caller_mem 3)) = 0
   \<and> output_size (snd (iw44_encode_slice_simple zero_plane 16 4 4 0 9 ones_lo ones_hi (caller_mem 3))) = Ref 0
   \<and> deref (output_buffer (snd (iw44_encode_slice_simple zero_plane 16 4 4 0 9 ones_lo ones_hi (caller_mem 3)))) 7 = 0"
    by simp
  with h1 h2 h4 h5 h6 show ?thesis by blast
qed

text \<open>
  Claim C7. With both quantization tables null and every other pointer valid, the call
  is not rejected: it returns 1 and writes the next cursor, the output size and the
  output buffer.
\<close>

theorem null_quant_tables_accepted:
  "fst (iw44_encode_slice_simple zero_plane 16 4 4 0 0 Null Null (caller_mem 4)) = 1
   \<and> next_bit (snd (iw44_encode_slice_simple zero_plane 16 4 4 0 0 Null Null (caller_mem 4))) = Ref 0
   \<and> next_band (snd (iw44_encode_slice_simple zero_plane 16 4 4 0 0 Null Null (caller_mem 4))) = Ref 1
   \<and> output_size (snd (iw44_encode_slice_simple zero_plane 16 4 4 0 0 Null Null (caller_mem 4))) = Ref 4
   \<and> deref (output_buffer (snd (iw44_encode_slice_simple zero_plane 16 4 4 0 0 Null Null (caller_mem 4)))) 2 = 0xAA"
  by (simp add: iw44_encode_slice_simple_def zero_plane_def caller_mem_def word_sle_eq)

text \<open>The five pointers the guard does check: status \<open>-1\<close>, nothing written.\<close>

lemma null_checked_pointer:
  assumes "coeffs = Null \<or> output_buffer m = Null \<or> output_size m = Null
           \<or> next_bit m = Null \<or> next_band m = Null"
  shows "iw44_encode_slice_simple coeffs nc w h cur_bit cur_band ql qh m = (- 1, m)"
  using assms by (simp add: iw44_encode_slice_simple_def)

text \<open>
  Claim C10. Two well-formed calls with the same cursor and the same stated capacity
  return the same status, next cursor and output size and write the same bytes at the
  same offsets of the output buffer (from equal buffers, equal buffers result),
  whatever the coefficients, their number, the width, the height and the two
  quantization tables are.
\<close>

theorem slice_ignores_plane_and_tables:
  assumes "coeffs1 \<noteq> Null" and "coeffs2 \<noteq> Null" and "slice_mem_ok m1" and "slice_mem_ok m2"
    and "output_size m1 = output_size m2"
    and "iw44_encode_slice_simple coeffs1 nc1 w1 h1 cur_bit cur_band ql1 qh1 m1 = (status1, m1')"
    and "iw44_encode_slice_simple coeffs2 nc2 w2 h2 cur_bit cur_band ql2 qh2 m2 = (status2, m2')"
  shows "status1 = status2
       \<and> next_bit m1' = next_bit m2' \<and> next_band m1' = next_band m2'
       \<and> output_size m1' = output_size m2'
       \<and> (\<forall>i. int i < sint (deref (output_size m1')) \<longrightarrow>
              deref (output_buffer m1') i = deref (output_buffer m2') i)
       \<and> (\<forall>i. deref (output_buffer m1') i \<noteq> deref (output_buffer m1) i \<longrightarrow>
              int i < sint (deref (output_size m1')))
       \<and> (output_buffer m1 = output_buffer m2 \<longrightarrow> output_buffer m1' = output_buffer m2')"
proof -
  obtain c where c1: "output_size m1 = Ref c"
    using assms(3) by (cases "output_size m1") (simp_all add: slice_mem_ok_def)
  then have c2: "output_size m2 = Ref c" using assms(5) by simp
  obtain b1 b2 where b1: "output_buffer m1 = Ref b1" and b2: "output_buffer m2 = Ref b2"
    using assms(3,4) by (cases "output_buffer m1"; cases "output_buffer m2") (simp_all add: slice_mem_ok_def)
  have i4: "i = 0 \<or> i = Suc 0 \<or> i = 2 \<or> i = 3" if "int i < 4" for i :: nat
    using that by arith
  show ?thesis
  proof (cases "4 \<le>s c")
    case True
    with assms c1 c2 b1 b2 show ?thesis
      by (auto simp: iw44_encode_slice_simple_def slice_mem_ok_def Let_def dest!: i4
               split: if_splits)
  next
    case False
    with assms c1 c2 b1 b2 show ?thesis
      by (auto simp: iw44_encode_slice_simple_def slice_mem_ok_def Let_def)
  qed
qed

theorem slice_ignores_plane_and_tables_witness:
  "zero_plane \<noteq> Null \<and> Ref [5, - 3] \<noteq> (Null :: 16 word list pointer)
   \<and> slice_mem_ok (caller_mem 4) \<and> output_size (caller_mem 4) = output_size (caller_mem 4)
   \<and> fst (iw44_encode_slice_simple zero_plane 16 4 4 2 9 ones_lo ones_hi (caller_mem 4))
       = fst (iw44_encode_slice_simple (Ref [5, - 3]) 2 2 1 2 9 Null Null (caller_mem 4))
   \<and> output_buffer (snd (iw44_encode_slice_simple zero_plane 16 4 4 2 9 ones_lo ones_hi (caller_mem 4)))
       = output_buffer (snd (iw44_encode_slice_simple (Ref [5, - 3]) 2 2 1 2 9 Null Null (caller_mem 4)))"
proof -
  have h1: "zero_plane \<noteq> Null" by (simp add: zero_plane_def)
  have h2: "Ref [5, - 3] \<noteq> (Null :: 16 word list pointer)" by simp
  have h3: "slice_mem_ok (caller_mem 4)" by (simp add: slice_mem_ok_def caller_mem_def)
  have h4: "output_size (caller_mem 4) = output_size (caller_mem 4)" by simp
  have h5: "iw44_encode_slice_simple zero_plane 16 4 4 2 9 ones_lo ones_hi (caller_mem 4)
     = (fst (iw44_encode_slice_simple zero_plane 16 4 4 2 9 ones_lo ones_hi (caller_mem 4)),
        snd (iw44_encode_slice_simple zero_plane 16 4 4 2 9 ones_lo ones_hi (caller_mem 4)))" by simp
  have h6: "iw44_encode_slice_simple (Ref [5, - 3]) 2 2 1 2 9 Null Null (caller_mem 4)
     = (fst (iw44_encode_slice_simple (Ref [5, - 3]) 2 2 1 2 9 Null Null (caller_mem 4)),
        snd (iw44_encode_slice_simple (Ref [5, - 3]) 2 2 1 2 9 Null Null (caller_mem 4)))" by simp
  show ?thesis
    using h1 h2 h3 slice_ignores_plane_and_tables[OF h1 h2 h3 h3 h4 h5 h6] by simp
qed

section \<open>Properties of the session bridge\<close>

lemma done_call:
  assumes "finished s" and "parms \<noteq> Null" and "output_data out \<noteq> Null"
    and "output_data_size out \<noteq> Null"
  shows "iw44_encode_chunk (session_ops c) malloc (Ref s) parms out = (0, Ref s, out)"
  using assms
  by (simp add: iw44_encode_chunk_def session_ops_def session_encode_chunk_def)

text \<open>
  Claim C3. On the specified session in its DONE state, a call of
  \<open>iw44_encode_chunk\<close> with non-null parameters and out-parameters returns the
  status 0 (DONE, not the error \<open>-1\<close>) and hands over no bytes: nothing is
  allocated and neither out-parameter is written. The session, and so what
  \<open>iw44_get_slices\<close> and \<open>iw44_get_bytes\<close> report, is as before, for any
  number of calls in a row and whether allocation would succeed or not.
\<close>

theorem done_session_idempotent:
  assumes "finished s" and "parms \<noteq> Null" and "output_data out \<noteq> Null"
    and "output_data_size out \<noteq> Null"
  shows "repeat_encode_chunk n (session_ops c) malloc (Ref s) parms out
           = replicate n (0, Ref s, out)
       \<and> iw44_encode_chunk (session_ops c) malloc (Ref s) parms out = (0, Ref s, out)
       \<and> iw44_get_slices (session_ops c)
            (fst (snd (iw44_encode_chunk (session_ops c) malloc (Ref s) parms out)))
           = iw44_get_slices (session_ops c) (Ref s)
       \<and> iw44_get_bytes (session_ops c)
            (fst (snd (iw44_encode_chunk (session_ops c) malloc (Ref s) parms out)))
           = iw44_get_bytes (session_ops c) (Ref s)"
proof -
  note one = done_call[OF assms, of c malloc]
  have "repeat_encode_chunk n (session_ops c) malloc (Ref s) parms out
           = replicate n (0, Ref s, out)"
    by (induction n) (simp_all add: one)
  then show ?thesis by (simp add: one)
qed

theorem done_session_idempotent_witness:
  "finished done_session
   \<and> Ref \<lparr>slices = 3, bytes = 0, decibels = 0\<rparr> \<noteq> Null
   \<and> output_data empty_out \<noteq> Null \<and> output_data_size empty_out \<noteq> Null
   \<and> repeat_encode_chunk 3 (session_ops stub_collaborators) (\<lambda>_. True) (Ref done_session)
        (Ref \<lparr>slices = 3, bytes = 0, decibels = 0\<rparr>) empty_out
      = [(0, Ref done_session, empty_out), (0, Ref done_session, empty_out),
         (0, Ref done_session, empty_out)]"
proof -
  have h1: "finished done_session" by (simp add: done_session_def)
  have h2: "Ref \<lparr>slices = 3, bytes = 0, decibels = 0\<rparr> \<noteq> Null" by simp
  have h3: "output_data empty_out \<noteq> Null" by (simp add: empty_out_def)
  have h4: "output_data_size empty_out \<noteq> Null" by (simp add: empty_out_def)
  show ?thesis
    using h1 h2 h3 h4
      done_session_idempotent[OF h1 h2 h3 h4, of 3 stub_collaborators "\<lambda>_. True"]
    by (simp add: eval_nat_numeral)
qed

text \<open>
  Claim C4. A fresh session at bit plane 0 reports 0 slices and 0 bytes. A call with a
  slice budget of 1 in which \<open>malloc\<close> fails returns \<open>-1\<close> and leaves the
  out-parameters as they were, but the session has encoded the slice before the
  allocation: it reports 1 slice and 4 bytes afterwards.
\<close>

theorem failed_allocation_advances_counters:
  "iw44_get_slices (session_ops stub_collaborators) (Ref (fresh_session 0)) = 0
   \<and> iw44_get_bytes (session_ops stub_collaborators) (Ref (fresh_session 0)) = 0
   \<and> fst (iw44_encode_chunk (session_ops stub_collaborators) (\<lambda>_. False) (Ref (fresh_session 0))
           (Ref \<lparr>slices = 1, bytes = 0, decibels = 0\<rparr>) empty_out) = - 1
   \<and> iw44_get_slices (session_ops stub_collaborators)
        (fst (snd (iw44_encode_chunk (session_ops stub_collaborators) (\<lambda>_. False)
           (Ref (fresh_session 0)) (Ref \<lparr>slices = 1, bytes = 0, decibels = 0\<rparr>) empty_out))) = 1
   \<and> iw44_get_bytes (session_ops stub_collaborators)
        (fst (snd (iw44_encode_chunk (session_ops stub_collaborators) (\<lambda>_. False)
           (Ref (fresh_session 0)) (Ref \<lparr>slices = 1, bytes = 0, decibels = 0\<rparr>) empty_out))) = 4
   \<and> snd (snd (iw44_encode_chunk (session_ops stub_collaborators) (\<lambda>_. False)
           (Ref (fresh_session 0)) (Ref \<lparr>slices = 1, bytes = 0, decibels = 0\<rparr>) empty_out))
       = empty_out"
proof -
  have loop: "chunk_loop stub_collaborators \<lparr>slices = 1, bytes = 0, decibels = 0\<rparr> 0 0 [] 0
      = Some ([0, 0, 0xAA, 0xBB], 1, 0, 1)"
    by (subst chunk_loop.simps)
       (simp add: stub_collaborators_def target_met_def BANDS_PER_PLANE_def)
  have enc: "session_encode_chunk stub_collaborators (fresh_session 0)
        \<lparr>slices = 1, bytes = 0, decibels = 0\<rparr>
      = (Some (1, [0, 0, 0xAA, 0xBB]),
         \<lparr>cursor_bit_plane = 0, cursor_band = 1, slices_so_far = 1, bytes_so_far = 4,
          finished = False\<rparr>)"
    by (simp add: session_encode_chunk_def fresh_session_def loop)
  have call: "iw44_encode_chunk (session_ops stub_collaborators) (\<lambda>_. False) (Ref (fresh_session 0))
           (Ref \<lparr>slices = 1, bytes = 0, decibels = 0\<rparr>) empty_out
      = (- 1, Ref \<lparr>cursor_bit_plane = 0, cursor_band = 1, slices_so_far = 1, bytes_so_far = 4,
          finished = False\<rparr>, empty_out)"
    by (simp add: iw44_encode_chunk_def session_ops_def enc empty_out_def)
  show ?thesis
    unfolding call
    by (simp add: iw44_get_slices_def iw44_get_bytes_def session_ops_def fresh_session_def)
qed

text \<open>
  The rest of claim C4 on the specified session: no call lowers a counter, and a call
  that returns an error while allocation succeeds leaves the session and the
  out-parameters as they were.
\<close>

lemma chunk_counters:
  assumes "iw44_encode_chunk (session_ops c) malloc (Ref s) parms out = (status, encoder', out')"
  shows "iw44_get_slices (session_ops c) (Ref s) \<le> iw44_get_slices (session_ops c) encoder'
       \<and> iw44_get_bytes (session_ops c) (Ref s) \<le> iw44_get_bytes (session_ops c) encoder'"
  using assms
  by (auto simp: iw44_encode_chunk_def session_ops_def session_encode_chunk_def
                 iw44_get_slices_def iw44_get_bytes_def Let_def
           split: if_splits option.splits prod.splits)

lemma error_with_memory_keeps_session:
  assumes "iw44_encode_chunk (session_ops c) (\<lambda>_. True) (Ref s) parms out = (status, encoder', out')"
    and "status < 0"
  shows "encoder' = Ref s \<and> out' = out"
  using assms
  by (auto simp: iw44_encode_chunk_def session_ops_def session_encode_chunk_def Let_def
           split: if_splits option.splits prod.splits)

text \<open>The copy loops read through the pixel pointer as soon as there is a pixel.\<close>

lemma copy_rows_null:
  assumes "0 < width" and "0 < height"
  shows "copy_rows Null width height 0 bitmap = None"
  using assms
  by (subst copy_rows.simps, subst copy_row.simps) (simp add: read_pixel_def)

lemma copy_rows_rgb_null:
  assumes "0 < width" and "0 < height"
  shows "copy_rows_rgb Null width height 0 pixmap = None"
  using assms
  by (subst copy_rows_rgb.simps, subst copy_row_rgb.simps) (simp add: read_pixel_def)

text \<open>
  Claim C8. Neither creation function tests its pixel pointer: with a null pixel
  buffer, a positive width and height and a library that builds the bitmap (or
  pixmap), the first pass of the copy loop reads through the null pointer, which is
  undefined behaviour and not the null handle.
\<close>

theorem null_pixel_buffer_undefined:
  assumes "0 < width" and "0 < height"
    and "GBitmap_create lib height width \<noteq> None"
    and "GPixmap_create lib height width \<noteq> None"
  shows "iw44_encoder_new_grayscale lib Null width height mask_data = Undefined_behaviour
       \<and> iw44_encoder_new_color lib Null width height mask_data = Undefined_behaviour"
  using assms(3,4)
  by (auto simp: iw44_encoder_new_grayscale_def iw44_encoder_new_color_def catch_nullptr_def
                 copy_rows_null[OF assms(1,2)] copy_rows_rgb_null[OF assms(1,2)])

theorem null_pixel_buffer_undefined_witness:
  "(0::int) < 1 \<and> GBitmap_create plain_image_lib 1 1 \<noteq> None
   \<and> GPixmap_create plain_image_lib 1 1 \<noteq> None
   \<and> iw44_encoder_new_grayscale plain_image_lib Null 1 1 Null = Undefined_behaviour
   \<and> iw44_encoder_new_color plain_image_lib Null 1 1 Null = Undefined_behaviour"
proof -
  have h1: "(0::int) < 1" by simp
  have h2: "GBitmap_create plain_image_lib 1 1 \<noteq> None" by (simp add: plain_image_lib_def)
  have h3: "GPixmap_create plain_image_lib 1 1 \<noteq> None" by (simp add: plain_image_lib_def)
  show ?thesis
    using h1 h2 h3 null_pixel_buffer_undefined[OF h1 h1 h2 h3, of Null] by simp
qed

text \<open>
  Nor do they test the width and the height: with sizes that are not positive the copy
  loops are skipped and the result is the library's. With a library that accepts every
  size a session is created.
\<close>

lemma non_positive_size_left_to_library:
  "iw44_encoder_new_grayscale plain_image_lib (Ref []) 0 0 Null = Value (Ref (fresh_session 0))
   \<and> iw44_encoder_new_color plain_image_lib (Ref []) (- 1) 0 Null = Value (Ref (fresh_session 0))"
  by (simp add: iw44_encoder_new_grayscale_def iw44_encoder_new_color_def catch_nullptr_def
                create_mask_def plain_image_lib_def copy_rows.simps copy_rows_rgb.simps)

text \<open>
  Claim C9. On a null handle \<open>iw44_encode_chunk\<close> returns \<open>-1\<close> and leaves the
  out-parameters as they were, \<open>iw44_get_slices\<close> and \<open>iw44_get_bytes\<close> return
  \<open>-1\<close>, and \<open>iw44_encoder_free\<close> does nothing; none of them reaches the
  library.
\<close>

theorem null_handle_is_error:
  "iw44_encode_chunk ops malloc Null parms out = (- 1, Null, out)
   \<and> iw44_get_slices ops Null = - 1
   \<and> iw44_get_bytes ops Null = - 1
   \<and> iw44_encoder_free gp_scope Null = Null"
  by (simp add: iw44_encode_chunk_def iw44_get_slices_def iw44_get_bytes_def
                iw44_encoder_free_def)

end
